theory Spec2Isabelle
  imports Complex_Main "HOL-Library.Word"
begin

unbundle bit_operations_syntax

section \<open>Reference gate matrices and their lookup tables (operations.hpp)\<close>

text \<open>
  \<^verbatim>\<open>Gate_2q\<close> is a rank-4 tensor of complex numbers, filled by \<^verbatim>\<open>setValues\<close> from a
  nested initializer list; it is kept as that nested list. Floating-point numbers are
  real numbers here, and \<^verbatim>\<open>std::pow(M_E, z)\<close> is the exponential of \<open>z\<close>.
\<close>

type_synonym Gate_2q = "complex list list list list"

definition CRX :: "real \<Rightarrow> Gate_2q" where
  "CRX parameter =
     (let c = Complex (cos (parameter / 2)) 0;
          js = Complex 0 (sin (- parameter / 2))
      in [[[[1, 0], [0, 0]], [[0, 1], [0, 0]]], [[[0, 0], [c, js]], [[0, 0], [js, c]]]])"

definition CRY :: "real \<Rightarrow> Gate_2q" where
  "CRY parameter =
     (let c = cos (parameter / 2);
          s = sin (parameter / 2)
      in [[[[1, 0], [0, 0]], [[0, 1], [0, 0]]],
          [[[0, 0], [complex_of_real c, complex_of_real (- s)]],
           [[0, 0], [complex_of_real s, complex_of_real c]]]])"

definition CRZ :: "real \<Rightarrow> Gate_2q" where
  "CRZ parameter =
     (let exponent = Complex 0 (- parameter / 2);
          exponent_second = Complex 0 (parameter / 2);
          first = exp exponent;
          second = exp exponent_second
      in [[[[1, 0], [0, 0]], [[0, 1], [0, 0]]], [[[0, 0], [first, 0]], [[0, 0], [0, second]]]])"

text \<open>
  A \<^verbatim>\<open>std::map\<close> built from an initializer list takes the pairs from left to right.
  For pairs with equal keys the C++ standard leaves open which of them ends up in the
  map; the standard libraries insert each pair in turn, and \<^verbatim>\<open>insert\<close> leaves the map
  as it is when the key is already present, so the first one stays. The parameter
  \<open>keeps_first\<close> covers both: with \<open>False\<close> a later pair replaces an earlier one.
\<close>

definition map_insert :: "('k \<rightharpoonup> 'v) \<Rightarrow> 'k \<times> 'v \<Rightarrow> ('k \<rightharpoonup> 'v)" where
  "map_insert m kv = (case m (fst kv) of None \<Rightarrow> m(fst kv \<mapsto> snd kv) | Some _ \<Rightarrow> m)"

definition map_assign :: "('k \<rightharpoonup> 'v) \<Rightarrow> 'k \<times> 'v \<Rightarrow> ('k \<rightharpoonup> 'v)" where
  "map_assign m kv = m(fst kv \<mapsto> snd kv)"

definition std_map :: "bool \<Rightarrow> ('k \<times> 'v) list \<Rightarrow> ('k \<rightharpoonup> 'v)" where
  "std_map keeps_first kvs =
     foldl (if keeps_first then map_insert else map_assign) Map.empty kvs"

text \<open>The initializer list of \<^verbatim>\<open>TwoQubitOpsOneParam\<close>, and the map built from it.\<close>

definition TwoQubitOpsOneParam_init :: "(string \<times> (real \<Rightarrow> Gate_2q)) list" where
  "TwoQubitOpsOneParam_init = [(''CRY'', CRX), (''CRY'', CRY), (''CRZ'', CRZ)]"

definition TwoQubitOpsOneParam :: "bool \<Rightarrow> string \<rightharpoonup> (real \<Rightarrow> Gate_2q)" where
  "TwoQubitOpsOneParam keeps_first = std_map keeps_first TwoQubitOpsOneParam_init"

section \<open>Applying operations and observables to state vectors (AlgUtil.hpp)\<close>

text \<open>
  A call on a state vector either returns, leaving the object in a new state, or throws an
  exception, leaving the object in some state as well, or reads a \<^verbatim>\<open>std::vector\<close> out of
  range with \<^verbatim>\<open>operator[]\<close>, after which nothing is known.
\<close>

datatype ('e, 's) outcome = Returned 's | Threw 'e 's | Undefined_Behaviour
















subsection \<open>Notions used to state the results\<close>

text \<open>
  Running the body of such a loop for the indices of a list, in the order of the list:
  the loops above are the case of the list \<open>[h_i..<n]\<close>; any other list of the same
  indices is another order in which the iterations may be executed.
\<close>

fun run_iterations ::
  "(nat \<Rightarrow> 's \<Rightarrow> ('e, 's) outcome) \<Rightarrow> nat list \<Rightarrow> 's list \<Rightarrow> 'e option \<Rightarrow> ('s list \<times> 'e option) option" where
  "run_iterations body [] sts ex = Some (sts, ex)"
| "run_iterations body (i # is) sts ex =
     (if i < length sts then
        (case body i (sts ! i) of
           Returned s \<Rightarrow> run_iterations body is (sts[i := s]) ex
         | Threw e s \<Rightarrow> run_iterations body is (sts[i := s]) (Some e)
         | Undefined_Behaviour \<Rightarrow> None)
      else None)"

text \<open>The state an outcome leaves behind, and \<open>ex\<close> after the \<^verbatim>\<open>catch\<close> clause.\<close>

fun state_after :: "('e, 's) outcome \<Rightarrow> 's \<Rightarrow> 's" where
  "state_after (Returned s) d = s"
| "state_after (Threw e s) d = s"
| "state_after Undefined_Behaviour d = d"

fun caught :: "('e, 's) outcome \<Rightarrow> 'e option \<Rightarrow> 'e option" where
  "caught (Threw e s) ex = Some e"
| "caught (Returned s) ex = ex"
| "caught Undefined_Behaviour ex = ex"








section \<open>The AVX512 kernel family (GateImplementationsAVX512.hpp)\<close>

text \<open>
  Every member function of \<^verbatim>\<open>GateImplementationsAVX512\<close> ends in one call, either to the
  function of \<^verbatim>\<open>GateImplementationsLM\<close> or to a member of one of the \<^verbatim>\<open>AVX::Apply...\<close>
  structures. Those callees are defined in other files (GateImplementationsLM.hpp,
  avx_common/Apply*.hpp); a member function is modelled by the call it makes: the callee,
  its template arguments and its arguments. The buffer \<^verbatim>\<open>arr\<close> is an argument like the
  others, of any type \<open>'a\<close>; \<^verbatim>\<open>size_t\<close> has 64 bits.
\<close>

type_synonym size_t = "64 word"

datatype Precision = Float | Double

fun sizeof :: "Precision \<Rightarrow> nat" where
  "sizeof Float = 4"
| "sizeof Double = 8"

datatype 'a arg =
    Arr 'a
  | Size size_t
  | Wires "size_t list"
  | Flag bool
  | Angle real
  | Matrix "complex list"

datatype member =
    applyInternal
  | applyExternal
  | applyInternalInternal
  | applyInternalExternal
  | applyExternalExternal

text \<open>
  \<open>GateImplementationsLM f args\<close> is the call \<^verbatim>\<open>GateImplementationsLM::f(args)\<close>;
  \<open>AVX s m ts args\<close> is the call \<^verbatim>\<open>AVX::s<PrecisionT, packed_size>::m<ts>(args)\<close>.
\<close>

datatype 'a kernel_call =
    GateImplementationsLM string "'a arg list"
  | AVX string member "nat list" "'a arg list"
  | PL_UNREACHABLE

text \<open>
  The members of \<^verbatim>\<open>GateOperation\<close> and of \<^verbatim>\<open>KernelType\<close> that the files at hand name
  (\<^verbatim>\<open>KernelType::None\<close> is \<open>Kernel_None\<close>); the two enumerations are declared in
  GateOperation.hpp and KernelType.hpp.
\<close>

datatype GateOperation =
    PauliX | PauliY | PauliZ | Hadamard | S | T | SWAP | RX | RY | RZ | PhaseShift | Rot | CZ
  | IsingXX | IsingYY | IsingZZ | MultiRZ

datatype KernelType = Kernel_None | LM | PI | AVX2 | AVX512

definition kernel_id :: KernelType where
  "kernel_id = AVX512"

definition packed_bytes :: nat where
  "packed_bytes = 64"

definition implemented_gates :: "GateOperation list" where
  "implemented_gates = [PauliX, PauliY, Hadamard, S, SWAP, RX, RZ, Rot, CZ, IsingZZ]"

text \<open>
  The gates for which \<^verbatim>\<open>GateImplementationsAVX512\<close> defines an \<^verbatim>\<open>apply\<close> function, in the
  order of the file.
\<close>

definition defined_gates :: "GateOperation list" where
  "defined_gates = [PauliX, PauliY, PauliZ, S, Hadamard, RX, RZ, Rot, CZ, SWAP, IsingZZ]"

text \<open>
  Modelled from the spec: \<^verbatim>\<open>AVX::internal_wires_v<packed_size>\<close>, declared in
  avx_common/AVXUtil.hpp, which is not among the files modelled. A wire is internal if its
  reverse-wire index is less than the base-2 logarithm of the packing width, and flipping
  the bit of an internal wire permutes elements within one register. A register of
  \<open>packed_size\<close> real numbers holds \<open>packed_size div 2\<close> complex amplitudes, so that is
  the packing width.
\<close>

fun log2_floor :: "nat \<Rightarrow> nat" where
  "log2_floor n = (if n < 2 then 0 else Suc (log2_floor (n div 2)))"

definition internal_wires_v :: "nat \<Rightarrow> nat" where
  "internal_wires_v packed_size = log2_floor (packed_size div 2)"

definition applySingleQubitOp ::
  "Precision \<Rightarrow> 'a \<Rightarrow> size_t \<Rightarrow> complex list \<Rightarrow> size_t \<Rightarrow> bool \<Rightarrow> 'a kernel_call" where
  "applySingleQubitOp PrecisionT arr num_qubits matrix wire inverse' =
     (let rev_wire = num_qubits - wire - 1 in
      if num_qubits < of_nat (internal_wires_v (packed_bytes div sizeof PrecisionT))
      then GateImplementationsLM ''applySingleQubitOp''
             [Arr arr, Size num_qubits, Matrix matrix, Size wire, Flag inverse']
      else
        (case PrecisionT of
           Float \<Rightarrow>
             (if rev_wire = 0 then AVX ''ApplySingleQubitOp'' applyInternal [0] [Arr arr, Size num_qubits, Matrix matrix, Flag inverse']
              else if rev_wire = 1 then AVX ''ApplySingleQubitOp'' applyInternal [1] [Arr arr, Size num_qubits, Matrix matrix, Flag inverse']
              else if rev_wire = 2 then AVX ''ApplySingleQubitOp'' applyInternal [2] [Arr arr, Size num_qubits, Matrix matrix, Flag inverse']
              else AVX ''ApplySingleQubitOp'' applyExternal [] [Arr arr, Size num_qubits, Size rev_wire, Matrix matrix, Flag inverse'])
         | Double \<Rightarrow>
             (if rev_wire = 0 then AVX ''ApplySingleQubitOp'' applyInternal [0] [Arr arr, Size num_qubits, Matrix matrix, Flag inverse']
              else if rev_wire = 1 then AVX ''ApplySingleQubitOp'' applyInternal [1] [Arr arr, Size num_qubits, Matrix matrix, Flag inverse']
              else AVX ''ApplySingleQubitOp'' applyExternal [] [Arr arr, Size num_qubits, Size rev_wire, Matrix matrix, Flag inverse'])))"

text \<open>
  The gate functions start with \<^verbatim>\<open>assert(wires.size() == 1)\<close> (or \<^verbatim>\<open>== 2\<close>); \<open>None\<close> is
  the failed assertion.
\<close>

definition applyPauliX ::
  "Precision \<Rightarrow> 'a \<Rightarrow> size_t \<Rightarrow> size_t list \<Rightarrow> bool \<Rightarrow> 'a kernel_call option" where
  "applyPauliX PrecisionT arr num_qubits wires inverse' =
     (if length wires \<noteq> 1 then None
      else if num_qubits < of_nat (internal_wires_v (packed_bytes div sizeof PrecisionT))
      then Some (GateImplementationsLM ''applyPauliX'' [Arr arr, Size num_qubits, Wires wires, Flag inverse'])
      else Some
        (case PrecisionT of
           Float \<Rightarrow>
             (let rev_wire = num_qubits - wires ! 0 - 1 in
              if rev_wire = 0 then AVX ''ApplyPauliX'' applyInternal [0] [Arr arr, Size num_qubits]
              else if rev_wire = 1 then AVX ''ApplyPauliX'' applyInternal [1] [Arr arr, Size num_qubits]
              else if rev_wire = 2 then AVX ''ApplyPauliX'' applyInternal [2] [Arr arr, Size num_qubits]
              else AVX ''ApplyPauliX'' applyExternal [] [Arr arr, Size num_qubits, Size rev_wire])
         | Double \<Rightarrow>
             (let rev_wire = num_qubits - wires ! 0 - 1 in
              if rev_wire = 0 then AVX ''ApplyPauliX'' applyInternal [0] [Arr arr, Size num_qubits]
              else if rev_wire = 1 then AVX ''ApplyPauliX'' applyInternal [1] [Arr arr, Size num_qubits]
              else AVX ''ApplyPauliX'' applyExternal [] [Arr arr, Size num_qubits, Size rev_wire])))"

definition applyPauliY ::
  "Precision \<Rightarrow> 'a \<Rightarrow> size_t \<Rightarrow> size_t list \<Rightarrow> bool \<Rightarrow> 'a kernel_call option" where
  "applyPauliY PrecisionT arr num_qubits wires inverse' =
     (if length wires \<noteq> 1 then None
      else if num_qubits < of_nat (internal_wires_v (packed_bytes div sizeof PrecisionT))
      then Some (GateImplementationsLM ''applyPauliY'' [Arr arr, Size num_qubits, Wires wires, Flag inverse'])
      else Some
        (case PrecisionT of
           Float \<Rightarrow>
             (let rev_wire = num_qubits - wires ! 0 - 1 in
              if rev_wire = 0 then AVX ''ApplyPauliY'' applyInternal [0] [Arr arr, Size num_qubits]
              else if rev_wire = 1 then AVX ''ApplyPauliY'' applyInternal [1] [Arr arr, Size num_qubits]
              else if rev_wire = 2 then AVX ''ApplyPauliY'' applyInternal [2] [Arr arr, Size num_qubits]
              else AVX ''ApplyPauliY'' applyExternal [] [Arr arr, Size num_qubits, Size rev_wire])
         | Double \<Rightarrow>
             (let rev_wire = num_qubits - wires ! 0 - 1 in
              if rev_wire = 0 then AVX ''ApplyPauliY'' applyInternal [0] [Arr arr, Size num_qubits]
              else if rev_wire = 1 then AVX ''ApplyPauliY'' applyInternal [1] [Arr arr, Size num_qubits]
              else AVX ''ApplyPauliY'' applyExternal [] [Arr arr, Size num_qubits, Size rev_wire])))"

definition applyPauliZ ::
  "Precision \<Rightarrow> 'a \<Rightarrow> size_t \<Rightarrow> size_t list \<Rightarrow> bool \<Rightarrow> 'a kernel_call option" where
  "applyPauliZ PrecisionT arr num_qubits wires inverse' =
     (if length wires \<noteq> 1 then None
      else if num_qubits < of_nat (internal_wires_v (packed_bytes div sizeof PrecisionT))
      then Some (GateImplementationsLM ''applyPauliZ'' [Arr arr, Size num_qubits, Wires wires, Flag inverse'])
      else Some
        (case PrecisionT of
           Float \<Rightarrow>
             (let rev_wire = num_qubits - wires ! 0 - 1 in
              if rev_wire = 0 then AVX ''ApplyPauliZ'' applyInternal [0] [Arr arr, Size num_qubits]
              else if rev_wire = 1 then AVX ''ApplyPauliZ'' applyInternal [1] [Arr arr, Size num_qubits]
              else if rev_wire = 2 then AVX ''ApplyPauliZ'' applyInternal [2] [Arr arr, Size num_qubits]
              else AVX ''ApplyPauliZ'' applyExternal [] [Arr arr, Size num_qubits, Size rev_wire])
         | Double \<Rightarrow>
             (let rev_wire = num_qubits - wires ! 0 - 1 in
              if rev_wire = 0 then AVX ''ApplyPauliZ'' applyInternal [0] [Arr arr, Size num_qubits]
              else if rev_wire = 1 then AVX ''ApplyPauliZ'' applyInternal [1] [Arr arr, Size num_qubits]
              else AVX ''ApplyPauliZ'' applyExternal [] [Arr arr, Size num_qubits, Size rev_wire])))"

definition applyS ::
  "Precision \<Rightarrow> 'a \<Rightarrow> size_t \<Rightarrow> size_t list \<Rightarrow> bool \<Rightarrow> 'a kernel_call option" where
  "applyS PrecisionT arr num_qubits wires inverse' =
     (if length wires \<noteq> 1 then None
      else Some
        (case PrecisionT of
           Float \<Rightarrow>
             (if num_qubits < 3 then GateImplementationsLM ''applyS'' [Arr arr, Size num_qubits, Wires wires, Flag inverse']
              else let rev_wire = num_qubits - wires ! 0 - 1 in
                if rev_wire = 0 then AVX ''ApplyS'' applyInternal [0] [Arr arr, Size num_qubits, Flag inverse']
                else if rev_wire = 1 then AVX ''ApplyS'' applyInternal [1] [Arr arr, Size num_qubits, Flag inverse']
                else if rev_wire = 2 then AVX ''ApplyS'' applyInternal [2] [Arr arr, Size num_qubits, Flag inverse']
                else AVX ''ApplyS'' applyExternal [] [Arr arr, Size num_qubits, Size rev_wire, Flag inverse'])
         | Double \<Rightarrow>
             (if num_qubits < 2 then GateImplementationsLM ''applyS'' [Arr arr, Size num_qubits, Wires wires, Flag inverse']
              else let rev_wire = num_qubits - wires ! 0 - 1 in
                if rev_wire = 0 then AVX ''ApplyS'' applyInternal [0] [Arr arr, Size num_qubits, Flag inverse']
                else if rev_wire = 1 then AVX ''ApplyS'' applyInternal [1] [Arr arr, Size num_qubits, Flag inverse']
                else AVX ''ApplyS'' applyExternal [] [Arr arr, Size num_qubits, Size rev_wire, Flag inverse'])))"

definition applyHadamard ::
  "Precision \<Rightarrow> 'a \<Rightarrow> size_t \<Rightarrow> size_t list \<Rightarrow> bool \<Rightarrow> 'a kernel_call option" where
  "applyHadamard PrecisionT arr num_qubits wires inverse' =
     (if length wires \<noteq> 1 then None
      else if num_qubits < of_nat (internal_wires_v (packed_bytes div sizeof PrecisionT))
      then Some (GateImplementationsLM ''applyHadamard'' [Arr arr, Size num_qubits, Wires wires, Flag inverse'])
      else Some
        (case PrecisionT of
           Float \<Rightarrow>
             (let rev_wire = num_qubits - wires ! 0 - 1 in
              if rev_wire = 0 then AVX ''ApplyHadamard'' applyInternal [0] [Arr arr, Size num_qubits]
              else if rev_wire = 1 then AVX ''ApplyHadamard'' applyInternal [1] [Arr arr, Size num_qubits]
              else if rev_wire = 2 then AVX ''ApplyHadamard'' applyInternal [2] [Arr arr, Size num_qubits]
              else AVX ''ApplyHadamard'' applyExternal [] [Arr arr, Size num_qubits, Size rev_wire])
         | Double \<Rightarrow>
             (let rev_wire = num_qubits - wires ! 0 - 1 in
              if rev_wire = 0 then AVX ''ApplyHadamard'' applyInternal [0] [Arr arr, Size num_qubits]
              else if rev_wire = 1 then AVX ''ApplyHadamard'' applyInternal [1] [Arr arr, Size num_qubits]
              else AVX ''ApplyHadamard'' applyExternal [] [Arr arr, Size num_qubits, Size rev_wire])))"

definition applyRX ::
  "Precision \<Rightarrow> 'a \<Rightarrow> size_t \<Rightarrow> size_t list \<Rightarrow> bool \<Rightarrow> real \<Rightarrow> 'a kernel_call option" where
  "applyRX PrecisionT arr num_qubits wires inverse' angle =
     (if length wires \<noteq> 1 then None
      else if num_qubits < of_nat (internal_wires_v (packed_bytes div sizeof PrecisionT))
      then Some (GateImplementationsLM ''applyRX'' [Arr arr, Size num_qubits, Wires wires, Flag inverse', Angle angle])
      else Some
        (case PrecisionT of
           Float \<Rightarrow>
             (let rev_wire = num_qubits - wires ! 0 - 1 in
              if rev_wire = 0 then AVX ''ApplyRX'' applyInternal [0] [Arr arr, Size num_qubits, Flag inverse', Angle angle]
              else if rev_wire = 1 then AVX ''ApplyRX'' applyInternal [1] [Arr arr, Size num_qubits, Flag inverse', Angle angle]
              else if rev_wire = 2 then AVX ''ApplyRX'' applyInternal [2] [Arr arr, Size num_qubits, Flag inverse', Angle angle]
              else AVX ''ApplyRX'' applyExternal [] [Arr arr, Size num_qubits, Size rev_wire, Flag inverse', Angle angle])
         | Double \<Rightarrow>
             (let rev_wire = num_qubits - wires ! 0 - 1 in
              if rev_wire = 0 then AVX ''ApplyRX'' applyInternal [0] [Arr arr, Size num_qubits, Flag inverse', Angle angle]
              else if rev_wire = 1 then AVX ''ApplyRX'' applyInternal [1] [Arr arr, Size num_qubits, Flag inverse', Angle angle]
              else AVX ''ApplyRX'' applyExternal [] [Arr arr, Size num_qubits, Size rev_wire, Flag inverse', Angle angle])))"

definition applyRZ ::
  "Precision \<Rightarrow> 'a \<Rightarrow> size_t \<Rightarrow> size_t list \<Rightarrow> bool \<Rightarrow> real \<Rightarrow> 'a kernel_call option" where
  "applyRZ PrecisionT arr num_qubits wires inverse' angle =
     (if length wires \<noteq> 1 then None
      else if num_qubits < of_nat (internal_wires_v (packed_bytes div sizeof PrecisionT))
      then Some (GateImplementationsLM ''applyRZ'' [Arr arr, Size num_qubits, Wires wires, Flag inverse', Angle angle])
      else Some
        (case PrecisionT of
           Float \<Rightarrow>
             (let rev_wire = num_qubits - wires ! 0 - 1 in
              if rev_wire = 0 then AVX ''ApplyRZ'' applyInternal [0] [Arr arr, Size num_qubits, Flag inverse', Angle angle]
              else if rev_wire = 1 then AVX ''ApplyRZ'' applyInternal [1] [Arr arr, Size num_qubits, Flag inverse', Angle angle]
              else if rev_wire = 2 then AVX ''ApplyRZ'' applyInternal [2] [Arr arr, Size num_qubits, Flag inverse', Angle angle]
              else AVX ''ApplyRZ'' applyExternal [] [Arr arr, Size num_qubits, Size rev_wire, Flag inverse', Angle angle])
         | Double \<Rightarrow>
             (let rev_wire = num_qubits - wires ! 0 - 1 in
              if rev_wire = 0 then AVX ''ApplyRZ'' applyInternal [0] [Arr arr, Size num_qubits, Flag inverse', Angle angle]
              else if rev_wire = 1 then AVX ''ApplyRZ'' applyInternal [1] [Arr arr, Size num_qubits, Flag inverse', Angle angle]
              else AVX ''ApplyRZ'' applyExternal [] [Arr arr, Size num_qubits, Size rev_wire, Flag inverse', Angle angle])))"

text \<open>
  \<^verbatim>\<open>Gates::getRot\<close> (Gates.hpp) is a parameter of \<^verbatim>\<open>applyRot\<close>. The call of
  \<^verbatim>\<open>applySingleQubitOp\<close> leaves \<^verbatim>\<open>inverse\<close> to its default, \<^verbatim>\<open>false\<close>.
\<close>

definition applyRot ::
  "(real \<Rightarrow> real \<Rightarrow> real \<Rightarrow> complex list) \<Rightarrow> Precision \<Rightarrow> 'a \<Rightarrow> size_t \<Rightarrow> size_t list \<Rightarrow> bool \<Rightarrow>
     real \<Rightarrow> real \<Rightarrow> real \<Rightarrow> 'a kernel_call option" where
  "applyRot getRot PrecisionT arr num_qubits wires inverse' phi theta omega =
     (if length wires \<noteq> 1 then None
      else
        (let rotMat = (if inverse' then getRot (- omega) (- theta) (- phi)
                       else getRot phi theta omega)
         in Some (applySingleQubitOp PrecisionT arr num_qubits rotMat (wires ! 0) False)))"

definition applyCZ ::
  "Precision \<Rightarrow> 'a \<Rightarrow> size_t \<Rightarrow> size_t list \<Rightarrow> bool \<Rightarrow> 'a kernel_call option" where
  "applyCZ PrecisionT arr num_qubits wires inverse' =
     (if length wires \<noteq> 2 then None
      else if num_qubits < of_nat (internal_wires_v (packed_bytes div sizeof PrecisionT))
      then Some (GateImplementationsLM ''applyCZ'' [Arr arr, Size num_qubits, Wires wires, Flag inverse'])
      else Some
        (case PrecisionT of
           Float \<Rightarrow>
             (let rev_wire0 = num_qubits - wires ! 1 - 1;
                  rev_wire1 = num_qubits - wires ! 0 - 1 in
              if rev_wire0 < 3 \<and> rev_wire1 < 3
              then AVX ''ApplyCZ'' applyInternalInternal [] [Arr arr, Size num_qubits, Size rev_wire0, Size rev_wire1]
              else if min rev_wire0 rev_wire1 < 3
              then AVX ''ApplyCZ'' applyInternalExternal [] [Arr arr, Size num_qubits, Size rev_wire0, Size rev_wire1]
              else AVX ''ApplyCZ'' applyExternalExternal [] [Arr arr, Size num_qubits, Size rev_wire0, Size rev_wire1])
         | Double \<Rightarrow>
             (let rev_wire0 = num_qubits - wires ! 1 - 1;
                  rev_wire1 = num_qubits - wires ! 0 - 1 in
              if rev_wire0 < 2 \<and> rev_wire1 < 2
              then AVX ''ApplyCZ'' applyInternalInternal [] [Arr arr, Size num_qubits, Size rev_wire0, Size rev_wire1]
              else if min rev_wire0 rev_wire1 < 2
              then AVX ''ApplyCZ'' applyInternalExternal [] [Arr arr, Size num_qubits, Size rev_wire0, Size rev_wire1]
              else AVX ''ApplyCZ'' applyExternalExternal [] [Arr arr, Size num_qubits, Size rev_wire0, Size rev_wire1])))"

definition applySWAP ::
  "Precision \<Rightarrow> 'a \<Rightarrow> size_t \<Rightarrow> size_t list \<Rightarrow> bool \<Rightarrow> 'a kernel_call option" where
  "applySWAP PrecisionT arr num_qubits wires inverse' =
     (if length wires \<noteq> 2 then None
      else Some
        (case PrecisionT of
           Float \<Rightarrow>
             (if num_qubits < 3 then GateImplementationsLM ''applySWAP'' [Arr arr, Size num_qubits, Wires wires, Flag inverse']
              else let rev_wire0 = num_qubits - wires ! 1 - 1;
                       rev_wire1 = num_qubits - wires ! 0 - 1;
                       min_rev_wire = min rev_wire0 rev_wire1;
                       max_rev_wire = max rev_wire0 rev_wire1 in
                if rev_wire0 < 3 \<and> rev_wire1 < 3 then
                  (if min_rev_wire XOR max_rev_wire = 1 then AVX ''ApplySWAP'' applyInternalInternal [0, 1] [Arr arr, Size num_qubits]
                   else if min_rev_wire XOR max_rev_wire = 2 then AVX ''ApplySWAP'' applyInternalInternal [0, 2] [Arr arr, Size num_qubits]
                   else if min_rev_wire XOR max_rev_wire = 3 then AVX ''ApplySWAP'' applyInternalInternal [1, 2] [Arr arr, Size num_qubits]
                   else PL_UNREACHABLE)
                else if min_rev_wire < 3 then
                  (if min_rev_wire = 0 then AVX ''ApplySWAP'' applyInternalExternal [0] [Arr arr, Size num_qubits, Size max_rev_wire]
                   else if min_rev_wire = 1 then AVX ''ApplySWAP'' applyInternalExternal [1] [Arr arr, Size num_qubits, Size max_rev_wire]
                   else if min_rev_wire = 2 then AVX ''ApplySWAP'' applyInternalExternal [2] [Arr arr, Size num_qubits, Size max_rev_wire]
                   else PL_UNREACHABLE)
                else AVX ''ApplySWAP'' applyExternalExternal [] [Arr arr, Size num_qubits, Size rev_wire0, Size rev_wire1])
         | Double \<Rightarrow>
             (if num_qubits < 2 then GateImplementationsLM ''applySWAP'' [Arr arr, Size num_qubits, Wires wires, Flag inverse']
              else let rev_wire0 = num_qubits - wires ! 1 - 1;
                       rev_wire1 = num_qubits - wires ! 0 - 1;
                       min_rev_wire = min rev_wire0 rev_wire1;
                       max_rev_wire = max rev_wire0 rev_wire1 in
                if rev_wire0 < 2 \<and> rev_wire1 < 2 then
                  AVX ''ApplySWAP'' applyInternalInternal [0, 1] [Arr arr, Size num_qubits]
                else if min_rev_wire < 2 then
                  (if min_rev_wire = 0 then AVX ''ApplySWAP'' applyInternalExternal [0] [Arr arr, Size num_qubits, Size max_rev_wire]
                   else AVX ''ApplySWAP'' applyInternalExternal [1] [Arr arr, Size num_qubits, Size max_rev_wire])
                else AVX ''ApplySWAP'' applyExternalExternal [] [Arr arr, Size num_qubits, Size rev_wire0, Size rev_wire1])))"

definition applyIsingZZ ::
  "Precision \<Rightarrow> 'a \<Rightarrow> size_t \<Rightarrow> size_t list \<Rightarrow> bool \<Rightarrow> real \<Rightarrow> 'a kernel_call option" where
  "applyIsingZZ PrecisionT arr num_qubits wires inverse' angle =
     (if length wires \<noteq> 2 then None
      else if num_qubits < of_nat (internal_wires_v (packed_bytes div sizeof PrecisionT))
      then Some (GateImplementationsLM ''applyIsingZZ'' [Arr arr, Size num_qubits, Wires wires, Flag inverse', Angle angle])
      else Some
        (case PrecisionT of
           Float \<Rightarrow>
             (let rev_wire0 = num_qubits - wires ! 1 - 1;
                  rev_wire1 = num_qubits - wires ! 0 - 1 in
              if rev_wire0 < 3 \<and> rev_wire1 < 3
              then AVX ''ApplyIsingZZ'' applyInternalInternal [] [Arr arr, Size num_qubits, Size rev_wire0, Size rev_wire1, Flag inverse', Angle angle]
              else if min rev_wire0 rev_wire1 < 3
              then AVX ''ApplyIsingZZ'' applyInternalExternal [] [Arr arr, Size num_qubits, Size rev_wire0, Size rev_wire1, Flag inverse', Angle angle]
              else AVX ''ApplyIsingZZ'' applyExternalExternal [] [Arr arr, Size num_qubits, Size rev_wire0, Size rev_wire1, Flag inverse', Angle angle])
         | Double \<Rightarrow>
             (let rev_wire0 = num_qubits - wires ! 1 - 1;
                  rev_wire1 = num_qubits - wires ! 0 - 1 in
              if rev_wire0 < 2 \<and> rev_wire1 < 2
              then AVX ''ApplyIsingZZ'' applyInternalInternal [] [Arr arr, Size num_qubits, Size rev_wire0, Size rev_wire1, Flag inverse', Angle angle]
              else if min rev_wire0 rev_wire1 < 2
              then AVX ''ApplyIsingZZ'' applyInternalExternal [] [Arr arr, Size num_qubits, Size rev_wire0, Size rev_wire1, Flag inverse', Angle angle]
              else AVX ''ApplyIsingZZ'' applyExternalExternal [] [Arr arr, Size num_qubits, Size rev_wire0, Size rev_wire1, Flag inverse', Angle angle])))"

section \<open>The kernel dispatch map (KernelMap.hpp)\<close>

text \<open>
  Of the dispatch map only the test, \<^verbatim>\<open>Test_KernelMap.cpp\<close>, is at hand; KernelMap.hpp is
  not. The definitions of this section follow the specification of the dispatch map, and
  the test for the names and the order of the arguments.
\<close>

text \<open>
  Modelled from the spec: the thread models (single-thread, multi-thread) and the memory
  alignment classes (aligned, unaligned) of a key; the test names \<^verbatim>\<open>SingleThread\<close> and
  \<^verbatim>\<open>Unaligned\<close>.
\<close>

datatype Threading = SingleThread | MultiThread

datatype CPUMemoryModel = Unaligned | Aligned

text \<open>
  Modelled from the spec: \<^verbatim>\<open>Util::IntegerInterval\<close>, a qubit-count interval \<open>[lo, hi)\<close>.
  Two intervals overlap when they have a number in common.
\<close>

record IntegerInterval =
  lo :: nat
  hi :: nat

definition contains :: "IntegerInterval \<Rightarrow> nat \<Rightarrow> bool" where
  "contains interval n \<longleftrightarrow> lo interval \<le> n \<and> n < hi interval"

definition overlapping :: "IntegerInterval \<Rightarrow> IntegerInterval \<Rightarrow> bool" where
  "overlapping a b \<longleftrightarrow> max (lo a) (lo b) < min (hi a) (hi b)"

definition full_domain :: IntegerInterval where
  "full_domain = \<lparr>lo = 0, hi = 2 ^ 64 - 1\<rparr>"

text \<open>
  Modelled from the spec: a dispatch entry of one key (operation, thread model, memory
  alignment), that is a priority, a qubit-count interval and a kernel; and
  \<^verbatim>\<open>PriorityDispatchSet\<close>, the entries of one key ordered by descending priority.
\<close>

record DispatchElement =
  priority :: nat
  interval :: IntegerInterval
  kernel :: KernelType

type_synonym PriorityDispatchSet = "DispatchElement list"

text \<open>
  Modelled from the spec: \<^verbatim>\<open>PriorityDispatchSet::conflict\<close>. A new entry conflicts with
  the set when an entry of the set has the same priority and an overlapping interval.
\<close>

definition conflict :: "PriorityDispatchSet \<Rightarrow> nat \<Rightarrow> IntegerInterval \<Rightarrow> bool" where
  "conflict pds test_priority test_interval \<longleftrightarrow>
     list_ex (\<lambda>e. priority e = test_priority \<and> overlapping (interval e) test_interval) pds"

text \<open>
  Modelled from the spec: \<^verbatim>\<open>PriorityDispatchSet::emplace\<close>, which adds an entry and keeps
  the set ordered by descending priority.
\<close>

fun emplace :: "DispatchElement \<Rightarrow> PriorityDispatchSet \<Rightarrow> PriorityDispatchSet" where
  "emplace x [] = [x]"
| "emplace x (e # es) = (if priority e < priority x then x # e # es else e # emplace x es)"

text \<open>
  Modelled from the spec: \<^verbatim>\<open>PriorityDispatchSet::getKernel\<close>, the query. It scans the
  entries in descending priority order and returns the kernel of the first entry whose
  interval contains the number of qubits; with no such entry it fails, and the test
  expects the message to contain \<^verbatim>\<open>Cannot find a kernel\<close>.
\<close>

definition getKernel :: "PriorityDispatchSet \<Rightarrow> nat \<Rightarrow> string + KernelType" where
  "getKernel pds num_qubits =
     (case find (\<lambda>e. contains (interval e) num_qubits) pds of
        Some e \<Rightarrow> Inr (kernel e)
      | None \<Rightarrow> Inl ''Cannot find a kernel'')"

text \<open>
  Modelled from the spec: the dispatch map of \<^verbatim>\<open>OperationKernelMap<GateOperation>\<close>, from
  (operation, thread model, memory alignment) to the entries of that key.
\<close>

type_synonym kernel_map = "GateOperation \<times> Threading \<times> CPUMemoryModel \<Rightarrow> PriorityDispatchSet"

text \<open>
  The operations each kernel family claims to implement. The list of the AVX512 family is
  \<^verbatim>\<open>GateImplementationsAVX512::implemented_gates\<close>; \<^verbatim>\<open>KernelType::None\<close> names no family and
  claims nothing; the lists of the other families are in files not modelled and are the
  parameter \<open>others\<close>.
\<close>

definition kernel_gates :: "(KernelType \<Rightarrow> GateOperation list) \<Rightarrow> KernelType \<Rightarrow> GateOperation list" where
  "kernel_gates others = others(Kernel_None := [], kernel_id := implemented_gates)"

text \<open>
  Modelled from the spec: \<^verbatim>\<open>assignKernelForOp\<close>, the registration. It fails if the kernel
  does not claim to implement the operation, and fails if the new entry conflicts with an
  entry of the same key; otherwise it adds the entry. The outcome carries the map as the
  call leaves it.
\<close>

definition assignKernelForOp ::
  "(KernelType \<Rightarrow> GateOperation list) \<Rightarrow> GateOperation \<Rightarrow> Threading \<Rightarrow> CPUMemoryModel \<Rightarrow> nat \<Rightarrow>
     IntegerInterval \<Rightarrow> KernelType \<Rightarrow> kernel_map \<Rightarrow> (string, kernel_map) outcome" where
  "assignKernelForOp gates op threading memory_model prio interval' kernel' m =
     (if op \<notin> set (gates kernel') then
        Threw ''The given kernel is not allowed for the given operation'' m
      else if conflict (m (op, threading, memory_model)) prio interval' then
        Threw ''The given interval conflicts with existing intervals'' m
      else
        Returned (m((op, threading, memory_model) :=
           emplace \<lparr>priority = prio, interval = interval', kernel = kernel'\<rparr>
             (m (op, threading, memory_model)))))"

text \<open>
  Modelled from the spec: \<^verbatim>\<open>removeKernelForOp\<close>, which deletes the entry of the given
  priority and fails if there is none.
\<close>

definition removeKernelForOp ::
  "GateOperation \<Rightarrow> Threading \<Rightarrow> CPUMemoryModel \<Rightarrow> nat \<Rightarrow> kernel_map \<Rightarrow> (string, kernel_map) outcome" where
  "removeKernelForOp op threading memory_model prio m =
     (if list_ex (\<lambda>e. priority e = prio) (m (op, threading, memory_model)) then
        Returned (m((op, threading, memory_model) :=
           filter (\<lambda>e. priority e \<noteq> prio) (m (op, threading, memory_model))))
      else Threw ''The given priority does not exist'' m)"

text \<open>Modelled from the spec: the query of the map, \<^verbatim>\<open>resolve\<close>.\<close>

definition resolve ::
  "kernel_map \<Rightarrow> GateOperation \<Rightarrow> Threading \<Rightarrow> CPUMemoryModel \<Rightarrow> nat \<Rightarrow> string + KernelType" where
  "resolve m op threading memory_model num_qubits =
     getKernel (m (op, threading, memory_model)) num_qubits"

text \<open>The maps that registrations and removals build, starting from the map without entries.\<close>

inductive registered :: "(KernelType \<Rightarrow> GateOperation list) \<Rightarrow> kernel_map \<Rightarrow> bool"
  for gates :: "KernelType \<Rightarrow> GateOperation list" where
  empty: "registered gates (\<lambda>key. [])"
| assign: "registered gates m \<Longrightarrow>
     assignKernelForOp gates op threading memory_model prio interval' kernel' m = Returned m' \<Longrightarrow>
     registered gates m'"
| remove: "registered gates m \<Longrightarrow>
     removeKernelForOp op threading memory_model prio m = Returned m' \<Longrightarrow>
     registered gates m'"


text \<open>Instances for the examples: a rotation matrix for \<open>getRot\<close>, and a map with one entry.\<close>

definition example_getRot :: "real \<Rightarrow> real \<Rightarrow> real \<Rightarrow> complex list" where
  "example_getRot phi theta omega =
     [cis ((- phi - omega) / 2) * cos (theta / 2), - cis ((phi - omega) / 2) * sin (theta / 2),
      cis ((- phi + omega) / 2) * sin (theta / 2), cis ((phi + omega) / 2) * cos (theta / 2)]"

definition example_kernel_map :: kernel_map where
  "example_kernel_map =
     (\<lambda>key. [])((PauliX, SingleThread, Unaligned) :=
        [\<lparr>priority = 10, interval = \<lparr>lo = 10, hi = 20\<rparr>, kernel = PI\<rparr>])"

section \<open>Results on the lookup tables\<close>

lemma CRX_neq_CRY: "CRX \<noteq> CRY"
proof
  assume "CRX = CRY"
  then have "CRX pi = CRY pi" by simp
  then show False
    by (simp add: CRX_def CRY_def Let_def complex_eq_iff)
qed

lemma CRZ_neq_CRY: "CRZ \<noteq> CRY"
proof
  assume "CRZ = CRY"
  then have "CRZ pi = CRY pi" by simp
  then show False
    by (simp add: CRZ_def CRY_def Let_def complex_eq_iff)
qed

lemma CRZ_neq_CRX: "CRZ \<noteq> CRX"
proof
  assume "CRZ = CRX"
  then have "CRZ pi = CRX pi" by simp
  then show False
    by (simp add: CRZ_def CRX_def Let_def complex_eq_iff)
qed

lemma TwoQubitOpsOneParam_lookup:
  "TwoQubitOpsOneParam keeps_first k =
     (if k = ''CRY'' then Some (if keeps_first then CRX else CRY)
      else if k = ''CRZ'' then Some CRZ else None)"
  by (simp add: TwoQubitOpsOneParam_def TwoQubitOpsOneParam_init_def std_map_def
      map_insert_def map_assign_def)

text \<open>
  Claim C9. The initializer list of \<^verbatim>\<open>TwoQubitOpsOneParam\<close> gives the two different
  functions \<^verbatim>\<open>CRX\<close> and \<^verbatim>\<open>CRY\<close> the same key \<^verbatim>\<open>"CRY"\<close>. The map built from it has
  exactly the keys \<^verbatim>\<open>"CRY"\<close> and \<^verbatim>\<open>"CRZ"\<close> and no entry for \<^verbatim>\<open>"CRX"\<close>; of the two
  bindings of \<^verbatim>\<open>"CRY"\<close> one is discarded: the key yields one of the two functions (the
  one listed first, \<^verbatim>\<open>CRX\<close>, when the first pair stays) and no key yields the other.
\<close>

theorem TwoQubitOpsOneParam_duplicate_key:
  "(''CRY'', CRX) \<in> set TwoQubitOpsOneParam_init \<and>
   (''CRY'', CRY) \<in> set TwoQubitOpsOneParam_init \<and>
   CRX \<noteq> CRY \<and>
   dom (TwoQubitOpsOneParam keeps_first) = {''CRY'', ''CRZ''} \<and>
   TwoQubitOpsOneParam keeps_first ''CRX'' = None \<and>
   TwoQubitOpsOneParam keeps_first ''CRY'' = Some (if keeps_first then CRX else CRY) \<and>
   (\<forall>k. TwoQubitOpsOneParam keeps_first k \<noteq> Some (if keeps_first then CRY else CRX)) \<and>
   TwoQubitOpsOneParam True ''CRY'' = Some CRX"
proof -
  have "dom (TwoQubitOpsOneParam keeps_first) = {''CRY'', ''CRZ''}"
    by (auto simp: dom_def TwoQubitOpsOneParam_lookup split: if_splits)
  moreover have "\<forall>k. TwoQubitOpsOneParam keeps_first k \<noteq> Some (if keeps_first then CRY else CRX)"
    using CRX_neq_CRY CRZ_neq_CRY CRZ_neq_CRX CRX_neq_CRY [symmetric]
    by (simp add: TwoQubitOpsOneParam_lookup)
  ultimately show ?thesis
    using CRX_neq_CRY by (simp add: TwoQubitOpsOneParam_lookup TwoQubitOpsOneParam_init_def)
qed

section \<open>Results on AlgUtil.hpp\<close>

subsection \<open>The loops\<close>

lemma run_iterations_closed:
  "distinct is \<Longrightarrow> \<forall>i\<in>set is. i < length sts \<and> body i (sts ! i) \<noteq> Undefined_Behaviour \<Longrightarrow>
   run_iterations body is sts ex =
     Some (map (\<lambda>k. if k \<in> set is then state_after (body k (sts ! k)) (sts ! k) else sts ! k)
             [0..<length sts],
           fold (\<lambda>i. caught (body i (sts ! i))) is ex)"
proof (induction "is" arbitrary: sts ex)
  case Nil
  then show ?case by (simp add: map_nth)
next
  case (Cons i "is")
  from Cons.prems have i: "i < length sts" "i \<notin> set is" "distinct is"
    and nub: "body i (sts ! i) \<noteq> Undefined_Behaviour"
    and rest: "\<forall>k\<in>set is. k < length sts \<and> body k (sts ! k) \<noteq> Undefined_Behaviour"
    by auto
  have same: "\<And>s k. k \<in> set is \<Longrightarrow> sts[i := s] ! k = sts ! k"
    using i by (auto simp: nth_list_update)
  have pre: "\<And>s. \<forall>k\<in>set is. k < length (sts[i := s]) \<and> body k (sts[i := s] ! k) \<noteq> Undefined_Behaviour"
    using rest same by simp
  have upd: "\<And>s. map (\<lambda>k. if k \<in> set is then state_after (body k (sts[i := s] ! k)) (sts[i := s] ! k)
                       else sts[i := s] ! k) [0..<length sts] =
               map (\<lambda>k. if k = i then s else if k \<in> set is then state_after (body k (sts ! k)) (sts ! k)
                       else sts ! k) [0..<length sts]"
    using i same by (auto simp: nth_list_update)
  have fld: "\<And>s ex'. fold (\<lambda>k. caught (body k (sts[i := s] ! k))) is ex' =
                fold (\<lambda>k. caught (body k (sts ! k))) is ex'"
    using same by (intro fold_cong) auto
  have fin: "\<And>s. state_after (body i (sts ! i)) (sts ! i) = s \<Longrightarrow>
      map (\<lambda>k. if k = i then s else if k \<in> set is then state_after (body k (sts ! k)) (sts ! k)
                else sts ! k) [0..<length sts] =
      map (\<lambda>k. if k \<in> set (i # is) then state_after (body k (sts ! k)) (sts ! k) else sts ! k)
        [0..<length sts]"
    by auto
  show ?case
  proof (cases "body i (sts ! i)")
    case (Returned s)
    have "run_iterations body is (sts[i := s]) ex =
        Some (map (\<lambda>k. if k = i then s else if k \<in> set is
                 then state_after (body k (sts ! k)) (sts ! k) else sts ! k) [0..<length sts],
              fold (\<lambda>k. caught (body k (sts ! k))) is ex)"
      using Cons.IH [OF i(3) pre, of s ex] by (simp add: upd fld del: map_eq_conv)
    then show ?thesis
      using i(1) Returned fin [of s] by simp
  next
    case (Threw e s)
    have "run_iterations body is (sts[i := s]) (Some e) =
        Some (map (\<lambda>k. if k = i then s else if k \<in> set is
                 then state_after (body k (sts ! k)) (sts ! k) else sts ! k) [0..<length sts],
              fold (\<lambda>k. caught (body k (sts ! k))) is (Some e))"
      using Cons.IH [OF i(3) pre, of s "Some e"] by (simp add: upd fld del: map_eq_conv)
    then show ?thesis
      using i(1) Threw fin [of s] by simp
  next
    case Undefined_Behaviour
    with nub show ?thesis by simp
  qed
qed




lemma fold_caught_None:
  "fold (\<lambda>i. caught (r i)) is ex = None \<longleftrightarrow> ex = None \<and> (\<forall>i\<in>set is. \<forall>e s. r i \<noteq> Threw e s)"
proof (induction "is" arbitrary: ex)
  case Nil
  then show ?case by simp
next
  case (Cons i "is")
  then show ?case by (cases "r i") auto
qed

lemma fold_caught_Some:
  "fold (\<lambda>i. caught (r i)) is ex = Some e \<Longrightarrow> ex = Some e \<or> (\<exists>i\<in>set is. \<exists>s. r i = Threw e s)"
proof (induction "is" arbitrary: ex)
  case Nil
  then show ?case by simp
next
  case (Cons i "is")
  then show ?case by (cases "r i") fastforce+
qed

lemma run_iterations_defined:
  "run_iterations body is sts ex = Some res \<Longrightarrow> distinct is \<Longrightarrow>
   \<forall>i\<in>set is. i < length sts \<and> body i (sts ! i) \<noteq> Undefined_Behaviour"
proof (induction "is" arbitrary: sts ex)
  case Nil
  then show ?case by simp
next
  case (Cons i "is")
  from Cons.prems have i: "i < length sts" "i \<notin> set is" "distinct is"
    by (auto split: if_splits)
  have same: "\<And>s k. k \<in> set is \<Longrightarrow> sts[i := s] ! k = sts ! k"
    using i by (auto simp: nth_list_update)
  show ?case
  proof (cases "body i (sts ! i)")
    case (Returned s)
    with Cons.prems i have "run_iterations body is (sts[i := s]) ex = Some res" by simp
    from Cons.IH [OF this i(3)] same Returned i show ?thesis by auto
  next
    case (Threw e s)
    with Cons.prems i have "run_iterations body is (sts[i := s]) (Some e) = Some res" by simp
    from Cons.IH [OF this i(3)] same Threw i show ?thesis by auto
  next
    case Undefined_Behaviour
    with Cons.prems i show ?thesis by simp
  qed
qed

lemma run_iterations_result:
  assumes "run_iterations body is sts ex = Some (sts', ex')" and "distinct is"
  shows "sts' = map (\<lambda>k. if k \<in> set is then state_after (body k (sts ! k)) (sts ! k) else sts ! k)
                  [0..<length sts]"
    and "ex' = fold (\<lambda>i. caught (body i (sts ! i))) is ex"
    and "\<forall>i\<in>set is. i < length sts \<and> body i (sts ! i) \<noteq> Undefined_Behaviour"
proof -
  show d: "\<forall>i\<in>set is. i < length sts \<and> body i (sts ! i) \<noteq> Undefined_Behaviour"
    using run_iterations_defined [OF assms] .
  from run_iterations_closed [of "is" sts body ex] assms d
  show "sts' = map (\<lambda>k. if k \<in> set is then state_after (body k (sts ! k)) (sts ! k) else sts ! k)
                  [0..<length sts]"
    and "ex' = fold (\<lambda>i. caught (body i (sts ! i))) is ex"
    by simp_all
qed







text \<open>
  The order of the iterations does not matter for the states: executed in any order, the
  iterations leave the same vector of states, and an exception is pending at the end
  exactly when it is after the iterations in index order.
\<close>

lemma run_iterations_any_order:
  assumes "distinct sched" and "set sched = {0..<n}"
    and "run_iterations body [0..<n] sts None = Some (sts', ex')"
  shows "\<exists>ex''. run_iterations body sched sts None = Some (sts', ex'') \<and>
           (ex'' = None \<longleftrightarrow> ex' = None) \<and>
           (\<forall>e. ex'' = Some e \<longrightarrow> (\<exists>i<n. \<exists>s. body i (sts ! i) = Threw e s))"
proof -
  note res = run_iterations_result [OF assms(3) distinct_upt]
  from res(3) assms(2)
  have d: "\<forall>i\<in>set sched. i < length sts \<and> body i (sts ! i) \<noteq> Undefined_Behaviour"
    by simp
  let ?ex = "fold (\<lambda>i. caught (body i (sts ! i))) sched None"
  have run: "run_iterations body sched sts None = Some (sts', ?ex)"
    using run_iterations_closed [of sched sts body None] assms(1) d res(1) assms(2)
    by simp
  have "?ex = None \<longleftrightarrow> ex' = None"
    unfolding res(2) fold_caught_None using assms(2) by simp
  moreover have "\<exists>i<n. \<exists>s. body i (sts ! i) = Threw e s" if "?ex = Some e" for e
    using fold_caught_Some [OF that] assms(2) by auto
  ultimately show ?thesis
    using run by (intro exI [of _ ?ex]) simp
qed

subsection \<open>The instance\<close>










subsection \<open>The claims\<close>










section \<open>Results on the AVX512 kernel family\<close>

lemma internal_wires_v_values:
  "internal_wires_v (packed_bytes div sizeof Float) = 3"
  "internal_wires_v (packed_bytes div sizeof Double) = 2"
  by (simp_all add: internal_wires_v_def packed_bytes_def)

lemma size_t_less_3: "(x :: size_t) < 3 \<longleftrightarrow> x = 0 \<or> x = 1 \<or> x = 2"
  by (auto simp: word_less_nat_alt word_unat_eq_iff) 

lemma size_t_less_2: "(x :: size_t) < 2 \<longleftrightarrow> x = 0 \<or> x = 1"
  by (auto simp: word_less_nat_alt word_unat_eq_iff)

lemma rev_wire_unat:
  "wire < num_qubits \<Longrightarrow> unat (num_qubits - wire - 1 :: size_t) = unat num_qubits - unat wire - 1"
  by unat_arith


lemmas avx512_defs = applySingleQubitOp_def applyPauliX_def applyPauliY_def applyPauliZ_def applyS_def applyHadamard_def applyRX_def applyRZ_def applyRot_def applyCZ_def applySWAP_def applyIsingZZ_def

lemma internal_wires_word:
  "(of_nat (internal_wires_v (packed_bytes div sizeof Float)) :: size_t) = 3"
  "(of_nat (internal_wires_v (packed_bytes div sizeof Double)) :: size_t) = 2"
  "(of_nat (internal_wires_v (packed_bytes div 4)) :: size_t) = 3"
  "(of_nat (internal_wires_v (packed_bytes div 8)) :: size_t) = 2"
  by (simp_all add: internal_wires_v_def packed_bytes_def)

text \<open>
  Claim C5, as amended. For a number of qubits below the number of internal wires of the
  packing width, and for both precisions, every member function makes one call, to a
  function of the generic family, and takes no vectorized path. Every one of them except
  \<^verbatim>\<open>applyRot\<close> calls the function of the same name with its own arguments, also
  \<^verbatim>\<open>applyS\<close> and \<^verbatim>\<open>applySWAP\<close>, whose thresholds are written as constants.
  \<^verbatim>\<open>applyRot\<close> has no guard of its own: it builds the rotation matrix (for the inverse,
  from the negated angles in reverse order) and hands it to \<^verbatim>\<open>applySingleQubitOp\<close>, whose
  guard calls the generic \<^verbatim>\<open>applySingleQubitOp\<close> with that matrix, the wire
  \<^verbatim>\<open>wires[0]\<close> and the inverse flag false.
\<close>

theorem crossover_guard_delegates:
  assumes "num_qubits < of_nat (internal_wires_v (packed_bytes div sizeof PrecisionT))"
  shows
  "applySingleQubitOp PrecisionT arr num_qubits matrix wire inverse' =
     GateImplementationsLM ''applySingleQubitOp''
       [Arr arr, Size num_qubits, Matrix matrix, Size wire, Flag inverse'] \<and>
   (length wires = 1 \<longrightarrow>
      applyPauliX PrecisionT arr num_qubits wires inverse' =
        Some (GateImplementationsLM ''applyPauliX'' [Arr arr, Size num_qubits, Wires wires, Flag inverse']) \<and>
      applyPauliY PrecisionT arr num_qubits wires inverse' =
        Some (GateImplementationsLM ''applyPauliY'' [Arr arr, Size num_qubits, Wires wires, Flag inverse']) \<and>
      applyPauliZ PrecisionT arr num_qubits wires inverse' =
        Some (GateImplementationsLM ''applyPauliZ'' [Arr arr, Size num_qubits, Wires wires, Flag inverse']) \<and>
      applyS PrecisionT arr num_qubits wires inverse' =
        Some (GateImplementationsLM ''applyS'' [Arr arr, Size num_qubits, Wires wires, Flag inverse']) \<and>
      applyHadamard PrecisionT arr num_qubits wires inverse' =
        Some (GateImplementationsLM ''applyHadamard'' [Arr arr, Size num_qubits, Wires wires, Flag inverse']) \<and>
      applyRX PrecisionT arr num_qubits wires inverse' angle =
        Some (GateImplementationsLM ''applyRX'' [Arr arr, Size num_qubits, Wires wires, Flag inverse', Angle angle]) \<and>
      applyRZ PrecisionT arr num_qubits wires inverse' angle =
        Some (GateImplementationsLM ''applyRZ'' [Arr arr, Size num_qubits, Wires wires, Flag inverse', Angle angle]) \<and>
      applyRot getRot PrecisionT arr num_qubits wires inverse' phi theta omega =
        Some (GateImplementationsLM ''applySingleQubitOp''
                [Arr arr, Size num_qubits, Matrix (if inverse' then getRot (- omega) (- theta) (- phi) else getRot phi theta omega),
                 Size (wires ! 0), Flag False])) \<and>
   (length wires = 2 \<longrightarrow>
      applyCZ PrecisionT arr num_qubits wires inverse' =
        Some (GateImplementationsLM ''applyCZ'' [Arr arr, Size num_qubits, Wires wires, Flag inverse']) \<and>
      applySWAP PrecisionT arr num_qubits wires inverse' =
        Some (GateImplementationsLM ''applySWAP'' [Arr arr, Size num_qubits, Wires wires, Flag inverse']) \<and>
      applyIsingZZ PrecisionT arr num_qubits wires inverse' angle =
        Some (GateImplementationsLM ''applyIsingZZ'' [Arr arr, Size num_qubits, Wires wires, Flag inverse', Angle angle]))"
  using assms by (cases PrecisionT) (simp_all add: avx512_defs internal_wires_word)

theorem crossover_guard_delegates_witness:
  "(2 :: size_t) < of_nat (internal_wires_v (packed_bytes div sizeof Float)) \<and>
   length [0 :: size_t] = 1 \<and>
   applyS Float () 2 [0] True
     = Some (GateImplementationsLM ''applyS'' [Arr (), Size 2, Wires [0], Flag True]) \<and>
   applyRot example_getRot Float () 2 [0] True 1 2 3
     = Some (GateImplementationsLM ''applySingleQubitOp''
               [Arr (), Size 2, Matrix (example_getRot (- 3) (- 2) (- 1)), Size 0, Flag False]) \<and>
   length [0, 1 :: size_t] = 2 \<and>
   applySWAP Float () 2 [0, 1] False
     = Some (GateImplementationsLM ''applySWAP'' [Arr (), Size 2, Wires [0, 1], Flag False])"
proof -
  have g: "(2 :: size_t) < of_nat (internal_wires_v (packed_bytes div sizeof Float))"
    by (simp add: internal_wires_word)
  from crossover_guard_delegates [OF g, where arr = "()" and wires = "[0]" and inverse' = True
      and getRot = example_getRot and phi = 1 and theta = 2 and omega = 3]
    crossover_guard_delegates [OF g, where arr = "()" and wires = "[0, 1]" and inverse' = False]
    g
  show ?thesis by simp
qed

theorem crossover_guard_delegates_counterexample:
  "(1 :: size_t) < of_nat (internal_wires_v (packed_bytes div sizeof Float)) \<and>
   length [0 :: size_t] = 1 \<and>
   applyRot example_getRot Float () 1 [0] False 0 0 0
     = Some (GateImplementationsLM ''applySingleQubitOp''
               [Arr (), Size 1, Matrix (example_getRot 0 0 0), Size 0, Flag False]) \<and>
   applyRot example_getRot Float () 1 [0] False 0 0 0
     \<noteq> Some (GateImplementationsLM ''applyRot''
               [Arr (), Size 1, Wires [0], Flag False, Angle 0, Angle 0, Angle 0])"
  by (simp add: applyRot_def applySingleQubitOp_def internal_wires_word)

lemma classify_one_wire:
  fixes num_qubits wire :: size_t
  assumes "of_nat (internal_wires_v (packed_bytes div sizeof PrecisionT)) \<le> num_qubits"
    and "wire < num_qubits"
  defines "iw \<equiv> of_nat (internal_wires_v (packed_bytes div sizeof PrecisionT))"
    and "rev_wire \<equiv> num_qubits - wire - 1"
  shows
  "unat rev_wire = unat num_qubits - unat wire - 1 \<and>
   applySingleQubitOp PrecisionT arr num_qubits matrix wire inverse' =
     (if rev_wire < iw
      then AVX ''ApplySingleQubitOp'' applyInternal [unat rev_wire]
             [Arr arr, Size num_qubits, Matrix matrix, Flag inverse']
      else AVX ''ApplySingleQubitOp'' applyExternal []
             [Arr arr, Size num_qubits, Size rev_wire, Matrix matrix, Flag inverse']) \<and>
   applyPauliX PrecisionT arr num_qubits [wire] inverse' =
     Some (if rev_wire < iw
           then AVX ''ApplyPauliX'' applyInternal [unat rev_wire] [Arr arr, Size num_qubits]
           else AVX ''ApplyPauliX'' applyExternal [] [Arr arr, Size num_qubits, Size rev_wire]) \<and>
   applyPauliY PrecisionT arr num_qubits [wire] inverse' =
     Some (if rev_wire < iw
           then AVX ''ApplyPauliY'' applyInternal [unat rev_wire] [Arr arr, Size num_qubits]
           else AVX ''ApplyPauliY'' applyExternal [] [Arr arr, Size num_qubits, Size rev_wire]) \<and>
   applyPauliZ PrecisionT arr num_qubits [wire] inverse' =
     Some (if rev_wire < iw
           then AVX ''ApplyPauliZ'' applyInternal [unat rev_wire] [Arr arr, Size num_qubits]
           else AVX ''ApplyPauliZ'' applyExternal [] [Arr arr, Size num_qubits, Size rev_wire]) \<and>
   applyS PrecisionT arr num_qubits [wire] inverse' =
     Some (if rev_wire < iw
           then AVX ''ApplyS'' applyInternal [unat rev_wire] [Arr arr, Size num_qubits, Flag inverse']
           else AVX ''ApplyS'' applyExternal [] [Arr arr, Size num_qubits, Size rev_wire, Flag inverse']) \<and>
   applyHadamard PrecisionT arr num_qubits [wire] inverse' =
     Some (if rev_wire < iw
           then AVX ''ApplyHadamard'' applyInternal [unat rev_wire] [Arr arr, Size num_qubits]
           else AVX ''ApplyHadamard'' applyExternal [] [Arr arr, Size num_qubits, Size rev_wire]) \<and>
   applyRX PrecisionT arr num_qubits [wire] inverse' angle =
     Some (if rev_wire < iw
           then AVX ''ApplyRX'' applyInternal [unat rev_wire] [Arr arr, Size num_qubits, Flag inverse', Angle angle]
           else AVX ''ApplyRX'' applyExternal [] [Arr arr, Size num_qubits, Size rev_wire, Flag inverse', Angle angle]) \<and>
   applyRZ PrecisionT arr num_qubits [wire] inverse' angle =
     Some (if rev_wire < iw
           then AVX ''ApplyRZ'' applyInternal [unat rev_wire] [Arr arr, Size num_qubits, Flag inverse', Angle angle]
           else AVX ''ApplyRZ'' applyExternal [] [Arr arr, Size num_qubits, Size rev_wire, Flag inverse', Angle angle]) \<and>
   applyRot getRot PrecisionT arr num_qubits [wire] inverse' phi theta omega =
     Some (if rev_wire < iw
           then AVX ''ApplySingleQubitOp'' applyInternal [unat rev_wire]
                  [Arr arr, Size num_qubits, Matrix (if inverse' then getRot (- omega) (- theta) (- phi) else getRot phi theta omega), Flag False]
           else AVX ''ApplySingleQubitOp'' applyExternal []
                  [Arr arr, Size num_qubits, Size rev_wire, Matrix (if inverse' then getRot (- omega) (- theta) (- phi) else getRot phi theta omega), Flag False])"
proof (cases PrecisionT)
  case Float
  with assms(1) have g: "\<not> num_qubits < 3" by (simp add: internal_wires_word)
  show ?thesis
    using g rev_wire_unat [OF assms(2)]
    unfolding iw_def rev_wire_def Float internal_wires_word
    by (auto simp: avx512_defs internal_wires_word size_t_less_3 Let_def)
next
  case Double
  with assms(1) have g: "\<not> num_qubits < 2" by (simp add: internal_wires_word)
  show ?thesis
    using g rev_wire_unat [OF assms(2)]
    unfolding iw_def rev_wire_def Double internal_wires_word
    by (auto simp: avx512_defs internal_wires_word size_t_less_2 Let_def)
qed


lemma rev_wire_inj:
  fixes num_qubits :: size_t
  shows "num_qubits - wire1 - 1 = num_qubits - wire0 - 1 \<longleftrightarrow> wire0 = wire1"
  by auto

lemma classify_two_wires:
  fixes num_qubits wire0 wire1 :: size_t
  assumes "of_nat (internal_wires_v (packed_bytes div sizeof PrecisionT)) \<le> num_qubits"
    and "wire0 < num_qubits" and "wire1 < num_qubits" and "wire0 \<noteq> wire1"
  defines "iw \<equiv> of_nat (internal_wires_v (packed_bytes div sizeof PrecisionT))"
    and "rev_wire0 \<equiv> num_qubits - wire1 - 1"
    and "rev_wire1 \<equiv> num_qubits - wire0 - 1"
  shows
  "unat rev_wire0 = unat num_qubits - unat wire1 - 1 \<and>
   unat rev_wire1 = unat num_qubits - unat wire0 - 1 \<and>
   applyCZ PrecisionT arr num_qubits [wire0, wire1] inverse' =
     Some (AVX ''ApplyCZ''
             (if rev_wire0 < iw \<and> rev_wire1 < iw then applyInternalInternal
              else if min rev_wire0 rev_wire1 < iw then applyInternalExternal
              else applyExternalExternal)
             [] [Arr arr, Size num_qubits, Size rev_wire0, Size rev_wire1]) \<and>
   applyIsingZZ PrecisionT arr num_qubits [wire0, wire1] inverse' angle =
     Some (AVX ''ApplyIsingZZ''
             (if rev_wire0 < iw \<and> rev_wire1 < iw then applyInternalInternal
              else if min rev_wire0 rev_wire1 < iw then applyInternalExternal
              else applyExternalExternal)
             [] [Arr arr, Size num_qubits, Size rev_wire0, Size rev_wire1, Flag inverse', Angle angle]) \<and>
   applySWAP PrecisionT arr num_qubits [wire0, wire1] inverse' =
     Some (if rev_wire0 < iw \<and> rev_wire1 < iw
           then AVX ''ApplySWAP'' applyInternalInternal
                  [unat (min rev_wire0 rev_wire1), unat (max rev_wire0 rev_wire1)] [Arr arr, Size num_qubits]
           else if min rev_wire0 rev_wire1 < iw
           then AVX ''ApplySWAP'' applyInternalExternal [unat (min rev_wire0 rev_wire1)]
                  [Arr arr, Size num_qubits, Size (max rev_wire0 rev_wire1)]
           else AVX ''ApplySWAP'' applyExternalExternal []
                  [Arr arr, Size num_qubits, Size rev_wire0, Size rev_wire1])"
proof -
  have ne: "rev_wire0 \<noteq> rev_wire1"
    using assms(4) by (simp add: rev_wire0_def rev_wire1_def)
  show ?thesis
  proof (cases PrecisionT)
    case Float
    with assms(1) have g: "\<not> num_qubits < 3" by (simp add: internal_wires_word)
    have iw: "iw = 3" by (simp add: iw_def Float internal_wires_word)
    have swap: "applySWAP Float arr num_qubits [wire0, wire1] inverse' =
     Some (if rev_wire0 < 3 \<and> rev_wire1 < 3
           then AVX ''ApplySWAP'' applyInternalInternal
                  [unat (min rev_wire0 rev_wire1), unat (max rev_wire0 rev_wire1)] [Arr arr, Size num_qubits]
           else if min rev_wire0 rev_wire1 < 3
           then AVX ''ApplySWAP'' applyInternalExternal [unat (min rev_wire0 rev_wire1)]
                  [Arr arr, Size num_qubits, Size (max rev_wire0 rev_wire1)]
           else AVX ''ApplySWAP'' applyExternalExternal []
                  [Arr arr, Size num_qubits, Size rev_wire0, Size rev_wire1])"
    proof (cases "rev_wire0 < 3 \<and> rev_wire1 < 3")
      case True
      then consider "rev_wire0 = 0" "rev_wire1 = 1" | "rev_wire0 = 0" "rev_wire1 = 2"
        | "rev_wire0 = 1" "rev_wire1 = 0" | "rev_wire0 = 1" "rev_wire1 = 2"
        | "rev_wire0 = 2" "rev_wire1 = 0" | "rev_wire0 = 2" "rev_wire1 = 1"
        using ne by (auto simp: size_t_less_3)
      then show ?thesis
        using g
        by cases (simp_all add: applySWAP_def rev_wire0_def [symmetric] rev_wire1_def [symmetric])
    next
      case False
      show ?thesis
      proof (cases "min rev_wire0 rev_wire1 < 3")
        case True
        then consider "min rev_wire0 rev_wire1 = 0" | "min rev_wire0 rev_wire1 = 1"
          | "min rev_wire0 rev_wire1 = 2"
          by (auto simp: size_t_less_3)
        then show ?thesis
          using g True
          by cases (simp_all add: applySWAP_def rev_wire0_def [symmetric]
              rev_wire1_def [symmetric] Let_def False)
      next
        case nmin: False
        then show ?thesis
          using g
          by (simp add: applySWAP_def rev_wire0_def [symmetric] rev_wire1_def [symmetric]
              Let_def False)
      qed
    qed
    show ?thesis
      using g rev_wire_unat [OF assms(2)] rev_wire_unat [OF assms(3)] swap
      unfolding iw Float
      by (simp add: applyCZ_def applyIsingZZ_def internal_wires_word Let_def
          rev_wire0_def [symmetric] rev_wire1_def [symmetric])
  next
    case Double
    with assms(1) have g: "\<not> num_qubits < 2" by (simp add: internal_wires_word)
    have iw: "iw = 2" by (simp add: iw_def Double internal_wires_word)
    have swap: "applySWAP Double arr num_qubits [wire0, wire1] inverse' =
     Some (if rev_wire0 < 2 \<and> rev_wire1 < 2
           then AVX ''ApplySWAP'' applyInternalInternal
                  [unat (min rev_wire0 rev_wire1), unat (max rev_wire0 rev_wire1)] [Arr arr, Size num_qubits]
           else if min rev_wire0 rev_wire1 < 2
           then AVX ''ApplySWAP'' applyInternalExternal [unat (min rev_wire0 rev_wire1)]
                  [Arr arr, Size num_qubits, Size (max rev_wire0 rev_wire1)]
           else AVX ''ApplySWAP'' applyExternalExternal []
                  [Arr arr, Size num_qubits, Size rev_wire0, Size rev_wire1])"
    proof (cases "rev_wire0 < 2 \<and> rev_wire1 < 2")
      case True
      then consider "rev_wire0 = 0" "rev_wire1 = 1" | "rev_wire0 = 1" "rev_wire1 = 0"
        using ne by (auto simp: size_t_less_2)
      then show ?thesis
        using g
        by cases (simp_all add: applySWAP_def rev_wire0_def [symmetric] rev_wire1_def [symmetric])
    next
      case False
      show ?thesis
      proof (cases "min rev_wire0 rev_wire1 < 2")
        case True
        then consider "min rev_wire0 rev_wire1 = 0" | "min rev_wire0 rev_wire1 = 1"
          by (auto simp: size_t_less_2)
        then show ?thesis
          using g True
          by cases (simp_all add: applySWAP_def rev_wire0_def [symmetric]
              rev_wire1_def [symmetric] Let_def False)
      next
        case nmin: False
        then show ?thesis
          using g
          by (simp add: applySWAP_def rev_wire0_def [symmetric] rev_wire1_def [symmetric]
              Let_def False)
      qed
    qed
    show ?thesis
      using g rev_wire_unat [OF assms(2)] rev_wire_unat [OF assms(3)] swap
      unfolding iw Double
      by (simp add: applyCZ_def applyIsingZZ_def internal_wires_word Let_def
          rev_wire0_def [symmetric] rev_wire1_def [symmetric])
  qed
qed


text \<open>
  Claim C6, as amended. Past the crossover guard, that is for a number of qubits not below
  the number of internal wires (3 for \<^verbatim>\<open>float\<close>, 2 for \<^verbatim>\<open>double\<close>), and for wires below
  the number of qubits: the reverse wire is \<open>num_qubits - wire - 1\<close>, without wrap-around;
  a one-wire function calls \<^verbatim>\<open>applyInternal\<close>, with the reverse wire as its template
  argument, if and only if the reverse wire is below the number of internal wires, and
  \<^verbatim>\<open>applyExternal\<close> otherwise; a two-wire function, given two different wires, selects
  among \<^verbatim>\<open>applyInternalInternal\<close>, \<^verbatim>\<open>applyInternalExternal\<close> (when the smaller reverse wire
  is internal) and \<^verbatim>\<open>applyExternalExternal\<close>. Below the guard the call goes to the
  generic family whatever the wire.
\<close>

theorem wire_classification:
  fixes num_qubits wire wire_a wire_b :: size_t
  assumes "of_nat (internal_wires_v (packed_bytes div sizeof PrecisionT)) \<le> num_qubits"
  defines "iw \<equiv> of_nat (internal_wires_v (packed_bytes div sizeof PrecisionT))"
    and "rev_wire \<equiv> num_qubits - wire - 1"
    and "rev_wire0 \<equiv> num_qubits - wire_b - 1"
    and "rev_wire1 \<equiv> num_qubits - wire_a - 1"
  shows
  "iw = (case PrecisionT of Float \<Rightarrow> 3 | Double \<Rightarrow> 2) \<and>
   (wire < num_qubits \<longrightarrow>
      unat rev_wire = unat num_qubits - unat wire - 1 \<and>
      applySingleQubitOp PrecisionT arr num_qubits matrix wire inverse' =
        (if rev_wire < iw
         then AVX ''ApplySingleQubitOp'' applyInternal [unat rev_wire]
                [Arr arr, Size num_qubits, Matrix matrix, Flag inverse']
         else AVX ''ApplySingleQubitOp'' applyExternal []
                [Arr arr, Size num_qubits, Size rev_wire, Matrix matrix, Flag inverse']) \<and>
      applyPauliX PrecisionT arr num_qubits [wire] inverse' =
        Some (if rev_wire < iw
              then AVX ''ApplyPauliX'' applyInternal [unat rev_wire] [Arr arr, Size num_qubits]
              else AVX ''ApplyPauliX'' applyExternal [] [Arr arr, Size num_qubits, Size rev_wire]) \<and>
      applyPauliY PrecisionT arr num_qubits [wire] inverse' =
        Some (if rev_wire < iw
              then AVX ''ApplyPauliY'' applyInternal [unat rev_wire] [Arr arr, Size num_qubits]
              else AVX ''ApplyPauliY'' applyExternal [] [Arr arr, Size num_qubits, Size rev_wire]) \<and>
      applyPauliZ PrecisionT arr num_qubits [wire] inverse' =
        Some (if rev_wire < iw
              then AVX ''ApplyPauliZ'' applyInternal [unat rev_wire] [Arr arr, Size num_qubits]
              else AVX ''ApplyPauliZ'' applyExternal [] [Arr arr, Size num_qubits, Size rev_wire]) \<and>
      applyS PrecisionT arr num_qubits [wire] inverse' =
        Some (if rev_wire < iw
              then AVX ''ApplyS'' applyInternal [unat rev_wire] [Arr arr, Size num_qubits, Flag inverse']
              else AVX ''ApplyS'' applyExternal [] [Arr arr, Size num_qubits, Size rev_wire, Flag inverse']) \<and>
      applyHadamard PrecisionT arr num_qubits [wire] inverse' =
        Some (if rev_wire < iw
              then AVX ''ApplyHadamard'' applyInternal [unat rev_wire] [Arr arr, Size num_qubits]
              else AVX ''ApplyHadamard'' applyExternal [] [Arr arr, Size num_qubits, Size rev_wire]) \<and>
      applyRX PrecisionT arr num_qubits [wire] inverse' angle =
        Some (if rev_wire < iw
              then AVX ''ApplyRX'' applyInternal [unat rev_wire] [Arr arr, Size num_qubits, Flag inverse', Angle angle]
              else AVX ''ApplyRX'' applyExternal [] [Arr arr, Size num_qubits, Size rev_wire, Flag inverse', Angle angle]) \<and>
      applyRZ PrecisionT arr num_qubits [wire] inverse' angle =
        Some (if rev_wire < iw
              then AVX ''ApplyRZ'' applyInternal [unat rev_wire] [Arr arr, Size num_qubits, Flag inverse', Angle angle]
              else AVX ''ApplyRZ'' applyExternal [] [Arr arr, Size num_qubits, Size rev_wire, Flag inverse', Angle angle]) \<and>
      applyRot getRot PrecisionT arr num_qubits [wire] inverse' phi theta omega =
        Some (if rev_wire < iw
              then AVX ''ApplySingleQubitOp'' applyInternal [unat rev_wire]
                     [Arr arr, Size num_qubits, Matrix (if inverse' then getRot (- omega) (- theta) (- phi) else getRot phi theta omega), Flag False]
              else AVX ''ApplySingleQubitOp'' applyExternal []
                     [Arr arr, Size num_qubits, Size rev_wire, Matrix (if inverse' then getRot (- omega) (- theta) (- phi) else getRot phi theta omega), Flag False])) \<and>
   (wire_a < num_qubits \<and> wire_b < num_qubits \<and> wire_a \<noteq> wire_b \<longrightarrow>
      unat rev_wire0 = unat num_qubits - unat wire_b - 1 \<and>
      unat rev_wire1 = unat num_qubits - unat wire_a - 1 \<and>
      applyCZ PrecisionT arr num_qubits [wire_a, wire_b] inverse' =
        Some (AVX ''ApplyCZ''
                (if rev_wire0 < iw \<and> rev_wire1 < iw then applyInternalInternal
                 else if min rev_wire0 rev_wire1 < iw then applyInternalExternal
                 else applyExternalExternal)
                [] [Arr arr, Size num_qubits, Size rev_wire0, Size rev_wire1]) \<and>
      applyIsingZZ PrecisionT arr num_qubits [wire_a, wire_b] inverse' angle =
        Some (AVX ''ApplyIsingZZ''
                (if rev_wire0 < iw \<and> rev_wire1 < iw then applyInternalInternal
                 else if min rev_wire0 rev_wire1 < iw then applyInternalExternal
                 else applyExternalExternal)
                [] [Arr arr, Size num_qubits, Size rev_wire0, Size rev_wire1, Flag inverse', Angle angle]) \<and>
      applySWAP PrecisionT arr num_qubits [wire_a, wire_b] inverse' =
        Some (if rev_wire0 < iw \<and> rev_wire1 < iw
              then AVX ''ApplySWAP'' applyInternalInternal
                     [unat (min rev_wire0 rev_wire1), unat (max rev_wire0 rev_wire1)] [Arr arr, Size num_qubits]
              else if min rev_wire0 rev_wire1 < iw
              then AVX ''ApplySWAP'' applyInternalExternal [unat (min rev_wire0 rev_wire1)]
                     [Arr arr, Size num_qubits, Size (max rev_wire0 rev_wire1)]
              else AVX ''ApplySWAP'' applyExternalExternal []
                     [Arr arr, Size num_qubits, Size rev_wire0, Size rev_wire1]))"
    (is "?A \<and> (_ \<longrightarrow> ?B) \<and> (_ \<longrightarrow> ?C)")
proof -
  have "?A"
    unfolding iw_def by (cases PrecisionT) (simp_all add: internal_wires_word)
  moreover have "?B" if "wire < num_qubits"
    using classify_one_wire [OF assms(1) that]
    unfolding iw_def rev_wire_def .
  moreover have "?C" if "wire_a < num_qubits \<and> wire_b < num_qubits \<and> wire_a \<noteq> wire_b"
  proof -
    from that have w: "wire_a < num_qubits" "wire_b < num_qubits" "wire_a \<noteq> wire_b"
      by simp_all
    from classify_two_wires [OF assms(1) w] show ?thesis
      unfolding iw_def rev_wire0_def rev_wire1_def .
  qed
  ultimately show ?thesis
    by blast
qed

theorem wire_classification_witness:
  "(of_nat (internal_wires_v (packed_bytes div sizeof Float)) :: size_t) \<le> 5 \<and>
   (3 :: size_t) < 5 \<and> (5 :: size_t) - 3 - 1 < 3 \<and>
   applyPauliX Float () 5 [3] False
     = Some (AVX ''ApplyPauliX'' applyInternal [1] [Arr (), Size 5]) \<and>
   (0 :: size_t) < 5 \<and> (5 :: size_t) - 0 - 1 = 4 \<and>
   applyRX Float () 5 [0] True (1 / 2)
     = Some (AVX ''ApplyRX'' applyExternal [] [Arr (), Size 5, Size 4, Flag True, Angle (1 / 2)]) \<and>
   (4 :: size_t) < 5 \<and> (0 :: size_t) \<noteq> 4 \<and>
   applyCZ Float () 5 [0, 4] False
     = Some (AVX ''ApplyCZ'' applyInternalExternal [] [Arr (), Size 5, Size 0, Size 4]) \<and>
   applySWAP Float () 5 [0, 4] False
     = Some (AVX ''ApplySWAP'' applyInternalExternal [0] [Arr (), Size 5, Size 4])"
proof -
  have g: "(of_nat (internal_wires_v (packed_bytes div sizeof Float)) :: size_t) \<le> 5"
    by (simp add: internal_wires_word)
  note a = wire_classification [OF g, where arr = "()" and wire = 3 and wire_a = 0 and wire_b = 4
      and inverse' = False]
  note b = wire_classification [OF g, where arr = "()" and wire = 0 and wire_a = 0 and wire_b = 4
      and inverse' = True and angle = "1 / 2"]
  have x: "applyPauliX Float () 5 [3] False
     = Some (AVX ''ApplyPauliX'' applyInternal [1] [Arr (), Size 5])"
    using a by (simp add: internal_wires_word)
  have r: "applyRX Float () 5 [0] True (1 / 2)
     = Some (AVX ''ApplyRX'' applyExternal [] [Arr (), Size 5, Size 4, Flag True, Angle (1 / 2)])"
    using b by (simp add: internal_wires_word)
  have c: "applyCZ Float () 5 [0, 4] False
     = Some (AVX ''ApplyCZ'' applyInternalExternal [] [Arr (), Size 5, Size 0, Size 4])"
    using a by (simp add: internal_wires_word)
  have s: "applySWAP Float () 5 [0, 4] False
     = Some (AVX ''ApplySWAP'' applyInternalExternal [0] [Arr (), Size 5, Size 4])"
    using a by (simp add: internal_wires_word)
  from g x r c s show ?thesis by simp
qed

theorem wire_classification_counterexample:
  "(0 :: size_t) < 2 \<and> (2 :: size_t) - 0 - 1 < 3 \<and>
   applyS Float () 2 [0] False
     = Some (GateImplementationsLM ''applyS'' [Arr (), Size 2, Wires [0], Flag False]) \<and>
   applyS Float () 2 [0] False
     \<noteq> Some (AVX ''ApplyS'' applyInternal [1] [Arr (), Size 2, Flag False])"
  by (simp add: applyS_def)

section \<open>Results on the kernel dispatch map\<close>

lemma overlapping_iff: "overlapping a b \<longleftrightarrow> (\<exists>n. contains a n \<and> contains b n)"
proof
  assume "overlapping a b"
  then have "contains a (max (lo a) (lo b)) \<and> contains b (max (lo a) (lo b))"
    by (auto simp: overlapping_def contains_def)
  then show "\<exists>n. contains a n \<and> contains b n" ..
next
  assume "\<exists>n. contains a n \<and> contains b n"
  then show "overlapping a b"
    by (auto simp: overlapping_def contains_def)
qed

lemma set_emplace: "set (emplace x es) = insert x (set es)"
  by (induction es) auto

lemma conflict_iff:
  "conflict pds p iv \<longleftrightarrow>
     (\<exists>e\<in>set pds. priority e = p \<and> (\<exists>n. contains (interval e) n \<and> contains iv n))"
  by (simp add: conflict_def list_ex_iff overlapping_iff)

lemma getKernel_not_found:
  "getKernel pds n = Inl msg \<longleftrightarrow> msg = ''Cannot find a kernel'' \<and> (\<forall>e\<in>set pds. \<not> contains (interval e) n)"
  by (auto simp: getKernel_def find_None_iff find_Some_iff split: option.splits)

lemma getKernel_found:
  "getKernel pds n = Inr k \<Longrightarrow> \<exists>e\<in>set pds. kernel e = k \<and> contains (interval e) n"
  by (auto simp: getKernel_def find_Some_iff split: option.splits)

lemma registered_claims:
  "registered gates m \<Longrightarrow> e \<in> set (m (op, threading, memory_model)) \<Longrightarrow> op \<in> set (gates (kernel e))"
proof (induction arbitrary: e op threading memory_model rule: registered.induct)
  case empty
  then show ?case by simp
next
  case (assign m op' threading' memory_model' prio interval' kernel' m')
  then show ?case
    by (auto simp: assignKernelForOp_def set_emplace split: if_splits)
next
  case (remove m op' threading' memory_model' prio m')
  then show ?case
    by (auto simp: removeKernelForOp_def split: if_splits)
qed

text \<open>
  Claim C8. A registration fails in exactly two situations, and then leaves the map as it
  was: the kernel does not claim to implement the operation (so for \<^verbatim>\<open>KernelType::None\<close>
  and \<^verbatim>\<open>PauliX\<close>), or an entry of the same key has the same priority and an interval
  with a number in common with the new one. A query of a priority set for a number of
  qubits that no interval of the set contains fails with \<^verbatim>\<open>Cannot find a kernel\<close>.
\<close>

theorem registration_failures:
  "(assignKernelForOp gates op threading memory_model prio interval' kernel' m = Threw msg m' \<longrightarrow>
      m' = m \<and>
      (op \<notin> set (gates kernel') \<or>
       (\<exists>e\<in>set (m (op, threading, memory_model)).
          priority e = prio \<and> (\<exists>n. contains (interval e) n \<and> contains interval' n)))) \<and>
   (op \<notin> set (gates kernel') \<or>
    (\<exists>e\<in>set (m (op, threading, memory_model)).
       priority e = prio \<and> (\<exists>n. contains (interval e) n \<and> contains interval' n)) \<longrightarrow>
      (\<exists>msg. assignKernelForOp gates op threading memory_model prio interval' kernel' m
               = Threw msg m)) \<and>
   (\<exists>msg. assignKernelForOp (kernel_gates others) PauliX threading memory_model prio interval'
             Kernel_None m = Threw msg m) \<and>
   ((\<forall>e\<in>set pds. \<not> contains (interval e) num_qubits) \<longrightarrow>
      getKernel pds num_qubits = Inl ''Cannot find a kernel'')"
  by (auto simp: assignKernelForOp_def conflict_iff kernel_gates_def kernel_id_def
      getKernel_not_found split: if_splits)

text \<open>
  Claim C10. The AVX512 family defines \<^verbatim>\<open>applyPauliZ\<close>, yet \<^verbatim>\<open>PauliZ\<close> is not among its
  \<^verbatim>\<open>implemented_gates\<close>, which are a strict subset of the gates it defines a function
  for. So every registration of the AVX512 kernel for \<^verbatim>\<open>PauliZ\<close> is rejected, and in no
  map built by registrations and removals does a query for \<^verbatim>\<open>PauliZ\<close> yield the AVX512
  kernel.
\<close>

theorem avx512_never_serves_PauliZ:
  "PauliZ \<in> set defined_gates \<and> PauliZ \<notin> set implemented_gates \<and>
   set implemented_gates \<subset> set defined_gates \<and>
   (\<exists>msg. assignKernelForOp (kernel_gates others) PauliZ threading memory_model prio interval'
             kernel_id m = Threw msg m) \<and>
   (registered (kernel_gates others) m \<longrightarrow>
      resolve m PauliZ threading memory_model num_qubits \<noteq> Inr kernel_id)"
proof -
  have z: "PauliZ \<notin> set (kernel_gates others kernel_id)"
    by (simp add: kernel_gates_def kernel_id_def implemented_gates_def)
  have "resolve m PauliZ threading memory_model num_qubits \<noteq> Inr kernel_id"
    if "registered (kernel_gates others) m"
  proof
    assume "resolve m PauliZ threading memory_model num_qubits = Inr kernel_id"
    then obtain e where "e \<in> set (m (PauliZ, threading, memory_model))" "kernel e = kernel_id"
      unfolding resolve_def by (blast dest: getKernel_found)
    with registered_claims [OF that] z show False by metis
  qed
  moreover have "set implemented_gates \<subset> set defined_gates"
    by (auto simp: implemented_gates_def defined_gates_def)
  ultimately show ?thesis
    using z by (auto simp: assignKernelForOp_def defined_gates_def implemented_gates_def)
qed


lemma example_kernel_map_registered:
  "registered (kernel_gates (\<lambda>k. [PauliX])) example_kernel_map"
proof -
  have "assignKernelForOp (kernel_gates (\<lambda>k. [PauliX])) PauliX SingleThread Unaligned 10
          \<lparr>lo = 10, hi = 20\<rparr> PI (\<lambda>key. []) = Returned example_kernel_map"
    by (simp add: assignKernelForOp_def kernel_gates_def kernel_id_def conflict_def
        example_kernel_map_def)
  with registered.empty show ?thesis
    by (rule registered.assign)
qed

theorem registration_failures_witness:
  "assignKernelForOp (kernel_gates (\<lambda>k. [PauliX])) PauliX SingleThread Unaligned 10
     \<lparr>lo = 19, hi = 23\<rparr> LM example_kernel_map
     = Threw ''The given interval conflicts with existing intervals'' example_kernel_map \<and>
   conflict (example_kernel_map (PauliX, SingleThread, Unaligned)) 10 \<lparr>lo = 19, hi = 23\<rparr> \<and>
   contains \<lparr>lo = 10, hi = 20\<rparr> 19 \<and> contains \<lparr>lo = 19, hi = 23\<rparr> 19 \<and>
   (\<exists>msg. assignKernelForOp (kernel_gates (\<lambda>k. [PauliX])) PauliX SingleThread Unaligned 0
             full_domain Kernel_None example_kernel_map = Threw msg example_kernel_map) \<and>
   getKernel (example_kernel_map (PauliX, SingleThread, Unaligned)) 15 = Inr PI \<and>
   getKernel (example_kernel_map (PauliX, SingleThread, Unaligned)) 30
     = Inl ''Cannot find a kernel''"
proof -
  have e: "example_kernel_map (PauliX, SingleThread, Unaligned)
             = [\<lparr>priority = 10, interval = \<lparr>lo = 10, hi = 20\<rparr>, kernel = PI\<rparr>]"
    by (simp add: example_kernel_map_def)
  have c: "contains \<lparr>lo = 10, hi = 20\<rparr> 19" "contains \<lparr>lo = 19, hi = 23\<rparr> 19"
    "\<not> contains \<lparr>lo = 10, hi = 20\<rparr> 30" "contains \<lparr>lo = 10, hi = 20\<rparr> 15"
    by (simp_all add: contains_def)
  have a: "assignKernelForOp (kernel_gates (\<lambda>k. [PauliX])) PauliX SingleThread Unaligned 10
     \<lparr>lo = 19, hi = 23\<rparr> LM example_kernel_map
     = Threw ''The given interval conflicts with existing intervals'' example_kernel_map"
    by (simp add: assignKernelForOp_def kernel_gates_def kernel_id_def conflict_def e
        overlapping_def)
  from registration_failures [where gates = "kernel_gates (\<lambda>k. [PauliX])" and op = PauliX
      and threading = SingleThread and memory_model = Unaligned and prio = 10
      and interval' = "\<lparr>lo = 19, hi = 23\<rparr>" and kernel' = LM and m = example_kernel_map
      and msg = "''The given interval conflicts with existing intervals''"
      and m' = example_kernel_map
      and pds = "example_kernel_map (PauliX, SingleThread, Unaligned)" and num_qubits = 30] a c
  have "getKernel (example_kernel_map (PauliX, SingleThread, Unaligned)) 30
     = Inl ''Cannot find a kernel''"
    by (simp add: e)
  moreover from registration_failures [where others = "\<lambda>k. [PauliX]"
      and threading = SingleThread and memory_model = Unaligned and prio = 0
      and interval' = full_domain and m = example_kernel_map]
  have "\<exists>msg. assignKernelForOp (kernel_gates (\<lambda>k. [PauliX])) PauliX SingleThread Unaligned 0
             full_domain Kernel_None example_kernel_map = Threw msg example_kernel_map"
    by blast
  moreover have "getKernel (example_kernel_map (PauliX, SingleThread, Unaligned)) 15 = Inr PI"
    using c by (simp add: getKernel_def e)
  moreover have "conflict (example_kernel_map (PauliX, SingleThread, Unaligned)) 10
      \<lparr>lo = 19, hi = 23\<rparr>"
    by (simp add: conflict_def e overlapping_def)
  ultimately show ?thesis
    using a c by simp
qed

theorem avx512_never_serves_PauliZ_witness:
  "registered (kernel_gates (\<lambda>k. [PauliX])) example_kernel_map \<and>
   resolve example_kernel_map PauliZ SingleThread Unaligned 15 \<noteq> Inr kernel_id \<and>
   resolve example_kernel_map PauliX SingleThread Unaligned 15 = Inr PI"
proof -
  have "resolve example_kernel_map PauliX SingleThread Unaligned 15 = Inr PI"
    by (simp add: resolve_def getKernel_def example_kernel_map_def contains_def)
  with avx512_never_serves_PauliZ [where others = "\<lambda>k. [PauliX]" and m = example_kernel_map
      and threading = SingleThread and memory_model = Unaligned and num_qubits = 15]
    example_kernel_map_registered
  show ?thesis by simp
qed


end
